theory Spec2Isabelle
  imports Complex_Main "HOL-Library.Multiset"
begin

section \<open>Trust Region Policy Optimization: the TRPO class of garage/torch/algos/trpo.py\<close>

text \<open>
  The class \<^verbatim>\<open>TRPO(VPG)\<close> has three methods: the constructor, \<^verbatim>\<open>_compute_objective\<close> and
  \<^verbatim>\<open>_optimize\<close>. Everything they call lives outside the file (the base trainer \<^verbatim>\<open>VPG\<close>,
  the policies, the optimizer, the tensor library), so each such collaborator is a parameter
  of the embedding. A call that may raise returns a sum: \<open>Inl e\<close> is the exception \<open>e\<close>,
  \<open>Inr v\<close> the value \<open>v\<close>; the type of exceptions is left open, since the methods neither
  create nor inspect one. Isabelle names cannot start with an underscore, so
  \<^verbatim>\<open>_compute_objective\<close> is \<open>compute_objective\<close> and \<^verbatim>\<open>_optimize\<close> is \<open>optimize\<close>.
\<close>

subsection \<open>The constructor\<close>

text \<open>
  The optimizer descriptor of line 58 is a pair of a class and a dictionary of keyword
  arguments. \<^verbatim>\<open>ConjugateGradientOptimizer\<close> is the only class the file names;
  \<open>OptimizerClass\<close> stands for any other class, by its name.
\<close>

datatype optimizer_class = ConjugateGradientOptimizer | OptimizerClass string

type_synonym optimizer_descriptor = "optimizer_class \<times> (string \<rightharpoonup> real)"

text \<open>
  The keyword arguments of the call \<^verbatim>\<open>super().__init__(...)\<close> of lines 62 to 75, one field
  for each keyword. The types of the fields follow the docstring of the class; a Python
  float is carried as a real number (the constructor does no arithmetic on it).
\<close>

record ('env, 'pol, 'bl) vpg_kwargs =
  env_spec :: 'env
  policy :: 'pol
  baseline :: 'bl
  optimizer :: optimizer_descriptor
  max_path_length :: int
  num_train_per_epoch :: int
  discount :: real
  gae_lambda :: real
  center_adv :: bool
  positive_adv :: bool
  policy_ent_coeff :: real
  use_softplus_entropy :: bool
  stop_entropy_gradient :: bool
  entropy_method :: string

text \<open>
  A parameter with a default value: the caller passes \<open>Some v\<close>, or \<open>None\<close> when the
  argument is left out and the default of the signature is taken.
\<close>

fun default_arg :: "'a option \<Rightarrow> 'a \<Rightarrow> 'a" where
  "default_arg None d = d"
| "default_arg (Some v) d = v"

text \<open>
  \<^verbatim>\<open>TRPO.__init__\<close>, lines 42 to 75. \<open>VPG_init\<close> is the constructor of the base class, which
  receives the keyword arguments and builds the object (or raises). The signature has no
  \<^verbatim>\<open>optimizer\<close> parameter and no \<^verbatim>\<open>**kwargs\<close>.
\<close>

definition TRPO_init ::
  "(('env, 'pol, 'bl) vpg_kwargs \<Rightarrow> 'r) \<Rightarrow> 'env \<Rightarrow> 'pol \<Rightarrow> 'bl \<Rightarrow> int option \<Rightarrow> int option \<Rightarrow>
   real option \<Rightarrow> real option \<Rightarrow> bool option \<Rightarrow> bool option \<Rightarrow> real option \<Rightarrow> real option \<Rightarrow>
   bool option \<Rightarrow> bool option \<Rightarrow> string option \<Rightarrow> 'r" where
  "TRPO_init = (\<lambda>VPG_init env_spec policy baseline max_path_length num_train_per_epoch discount
      gae_lambda center_adv positive_adv policy_ent_coeff max_kl_step use_softplus_entropy
      stop_entropy_gradient entropy_method.
    let max_path_length = default_arg max_path_length 100;
        num_train_per_epoch = default_arg num_train_per_epoch 1;
        discount = default_arg discount 0.99;
        gae_lambda = default_arg gae_lambda 0.98;
        center_adv = default_arg center_adv True;
        positive_adv = default_arg positive_adv False;
        policy_ent_coeff = default_arg policy_ent_coeff 0.0;
        max_kl_step = default_arg max_kl_step 0.01;
        use_softplus_entropy = default_arg use_softplus_entropy False;
        stop_entropy_gradient = default_arg stop_entropy_gradient False;
        entropy_method = default_arg entropy_method ''no_entropy'';
        optimizer = (ConjugateGradientOptimizer, [''max_constraint_value'' \<mapsto> max_kl_step])
    in VPG_init \<lparr>env_spec = env_spec,
                 policy = policy,
                 baseline = baseline,
                 optimizer = optimizer,
                 max_path_length = max_path_length,
                 num_train_per_epoch = num_train_per_epoch,
                 discount = discount,
                 gae_lambda = gae_lambda,
                 center_adv = center_adv,
                 positive_adv = positive_adv,
                 policy_ent_coeff = policy_ent_coeff,
                 use_softplus_entropy = use_softplus_entropy,
                 stop_entropy_gradient = stop_entropy_gradient,
                 entropy_method = entropy_method\<rparr>)"

subsection \<open>The object and the tensor library\<close>

text \<open>
  The attributes of \<^verbatim>\<open>self\<close> that the two methods read: \<^verbatim>\<open>self.policy\<close>,
  \<^verbatim>\<open>self._old_policy\<close> and \<^verbatim>\<open>self._optimizer\<close>. The base class sets them; whatever else
  it stores is the extension part of the record.
\<close>

record ('pol, 'opt) trpo =
  self_policy :: 'pol
  self_old_policy :: 'pol
  self_optimizer :: 'opt

text \<open>
  The three tensor operations of lines 95 and 98: \<^verbatim>\<open>a - b\<close>, \<^verbatim>\<open>a.exp()\<close> and \<^verbatim>\<open>a * b\<close>.
  Each reads the library's gradient mode (the flag that \<^verbatim>\<open>torch.no_grad()\<close> clears), which is
  their first argument, and each may raise.
\<close>

record ('e, 't) torch =
  t_sub :: "bool \<Rightarrow> 't \<Rightarrow> 't \<Rightarrow> 'e + 't"
  t_exp :: "bool \<Rightarrow> 't \<Rightarrow> 'e + 't"
  t_mul :: "bool \<Rightarrow> 't \<Rightarrow> 't \<Rightarrow> 'e + 't"

subsection \<open>The surrogate objective\<close>

text \<open>
  Lines 91 to 95, up to the local variable \<^verbatim>\<open>likelihood_ratio\<close>. \<open>log_likelihood\<close> is the
  method of the policy class, taken as a function of the policy object and the batch; like
  the tensor operations it reads the gradient mode.
  \<open>grad_enabled\<close> is the mode at the time of the call. The block under
  \<^verbatim>\<open>with torch.no_grad()\<close> runs with the mode cleared, and the mode is restored on leaving
  the block, also when the block raises: the context manager does not catch the exception.
\<close>

definition likelihood_ratio ::
  "('e, 't) torch \<Rightarrow> (bool \<Rightarrow> 'pol \<Rightarrow> 'obs \<Rightarrow> 'act \<Rightarrow> 'e + 't) \<Rightarrow> bool \<Rightarrow>
   ('pol, 'opt, 'z) trpo_scheme \<Rightarrow> 'obs \<Rightarrow> 'act \<Rightarrow> 'e + 't" where
  "likelihood_ratio T log_likelihood grad_enabled self obs actions =
    (case log_likelihood False (self_old_policy self) obs actions of
       Inl e \<Rightarrow> Inl e
     | Inr old_ll \<Rightarrow>
        (case log_likelihood grad_enabled (self_policy self) obs actions of
           Inl e \<Rightarrow> Inl e
         | Inr new_ll \<Rightarrow>
            (case t_sub T grad_enabled new_ll old_ll of
               Inl e \<Rightarrow> Inl e
             | Inr d \<Rightarrow> t_exp T grad_enabled d)))"

text \<open>\<^verbatim>\<open>TRPO._compute_objective\<close>, lines 77 to 100.\<close>

definition compute_objective ::
  "('e, 't) torch \<Rightarrow> (bool \<Rightarrow> 'pol \<Rightarrow> 'obs \<Rightarrow> 'act \<Rightarrow> 'e + 't) \<Rightarrow> bool \<Rightarrow>
   ('pol, 'opt, 'z) trpo_scheme \<Rightarrow> 't \<Rightarrow> int list \<Rightarrow> 'obs \<Rightarrow> 'act \<Rightarrow> 'rew \<Rightarrow> 'e + 't" where
  "compute_objective T log_likelihood grad_enabled self advantages valids obs actions rewards =
    (case likelihood_ratio T log_likelihood grad_enabled self obs actions of
       Inl e \<Rightarrow> Inl e
     | Inr ratio \<Rightarrow> t_mul T grad_enabled ratio advantages)"

subsection \<open>The optimization step\<close>

text \<open>
  \<^verbatim>\<open>TRPO._optimize\<close>, lines 102 to 106. The object is mutable state: the optimizer updates
  the parameters of the policy it was built on, so a method is a function from the state of
  the object to a result and the new state. The two lambdas capture \<^verbatim>\<open>self\<close> by reference
  and the other arguments by value; called later, they see the state of the object at that
  moment. \<open>step\<close> is the optimizer's method, \<open>compute_loss\<close> and \<open>compute_kl_constraint\<close> are
  methods of the base class. The method has no return statement: what \<open>step\<close> returns is
  dropped.
\<close>

definition optimize ::
  "('opt \<Rightarrow> (('pol, 'opt, 'z) trpo_scheme \<Rightarrow> ('e + 'l) \<times> ('pol, 'opt, 'z) trpo_scheme) \<Rightarrow>
      (('pol, 'opt, 'z) trpo_scheme \<Rightarrow> ('e + 'c) \<times> ('pol, 'opt, 'z) trpo_scheme) \<Rightarrow>
      ('pol, 'opt, 'z) trpo_scheme \<Rightarrow> ('e + 'r) \<times> ('pol, 'opt, 'z) trpo_scheme) \<Rightarrow>
   (('pol, 'opt, 'z) trpo_scheme \<Rightarrow> 'itr \<Rightarrow> 'paths \<Rightarrow> int list \<Rightarrow> 'obs \<Rightarrow> 'act \<Rightarrow> 'rew \<Rightarrow> 'bls \<Rightarrow>
      ('e + 'l) \<times> ('pol, 'opt, 'z) trpo_scheme) \<Rightarrow>
   (('pol, 'opt, 'z) trpo_scheme \<Rightarrow> 'obs \<Rightarrow> ('e + 'c) \<times> ('pol, 'opt, 'z) trpo_scheme) \<Rightarrow>
   'itr \<Rightarrow> 'paths \<Rightarrow> int list \<Rightarrow> 'obs \<Rightarrow> 'act \<Rightarrow> 'rew \<Rightarrow> 'bls \<Rightarrow>
   ('pol, 'opt, 'z) trpo_scheme \<Rightarrow> ('e + unit) \<times> ('pol, 'opt, 'z) trpo_scheme" where
  "optimize step compute_loss compute_kl_constraint
      itr paths valids obs actions rewards baselines self =
    (case step (self_optimizer self)
            (\<lambda>s. compute_loss s itr paths valids obs actions rewards baselines)
            (\<lambda>s. compute_kl_constraint s obs)
            self of
       (Inl e, self') \<Rightarrow> (Inl e, self')
     | (Inr r, self') \<Rightarrow> (Inr (), self'))"

subsection \<open>Collaborators to evaluate the methods on\<close>

text \<open>
  The theorems below hold for every tensor library, policy class and optimizer. To evaluate
  the methods on concrete inputs, this section gives one of each. The tensor library is seen
  through the shapes of its tensors and their gradient graphs: a tensor is its shape together
  with the set of parameters that its graph reaches, and its values are not represented. A
  binary operation broadcasts the shapes of its operands: aligned at the last dimension, two
  sizes go together when they are equal or one of them is 1, and a shape that is too short
  counts as 1 in front. It raises when they do not go together. An operation records the
  graphs of its operands when the gradient mode is set and records nothing when it is
  cleared.
\<close>

datatype torch_error = ShapeMismatch

record 'p tensor =
  shape :: "nat list"
  leaves :: "'p set"

definition tracked :: "bool \<Rightarrow> 'p set \<Rightarrow> 'p set" where
  "tracked grad_enabled L = (if grad_enabled then L else {})"

fun broadcast_reversed :: "nat list \<Rightarrow> nat list \<Rightarrow> nat list option" where
  "broadcast_reversed [] ys = Some ys"
| "broadcast_reversed xs [] = Some xs"
| "broadcast_reversed (x # xs) (y # ys) =
    (if x = y \<or> y = 1 then map_option ((#) x) (broadcast_reversed xs ys)
     else if x = 1 then map_option ((#) y) (broadcast_reversed xs ys)
     else None)"

definition broadcast_shapes :: "nat list \<Rightarrow> nat list \<Rightarrow> nat list option" where
  "broadcast_shapes a b = map_option rev (broadcast_reversed (rev a) (rev b))"

definition graph_binary :: "bool \<Rightarrow> 'p tensor \<Rightarrow> 'p tensor \<Rightarrow> torch_error + 'p tensor" where
  "graph_binary grad_enabled a b =
    (case broadcast_shapes (shape a) (shape b) of
       None \<Rightarrow> Inl ShapeMismatch
     | Some s \<Rightarrow> Inr \<lparr>shape = s, leaves = tracked grad_enabled (leaves a \<union> leaves b)\<rparr>)"

definition graph_unary :: "bool \<Rightarrow> 'p tensor \<Rightarrow> torch_error + 'p tensor" where
  "graph_unary grad_enabled a =
    Inr \<lparr>shape = shape a, leaves = tracked grad_enabled (leaves a)\<rparr>"

definition graph_torch :: "(torch_error, 'p tensor) torch" where
  "graph_torch = \<lparr>t_sub = graph_binary, t_exp = graph_unary, t_mul = graph_binary\<rparr>"

text \<open>
  A policy with one parameter, named by a number, and a value \<open>\<theta>\<close>. Its log-likelihood has
  one entry for each action of the batch, depends on the parameter, and is recorded in the
  graph when the gradient mode is set. It raises on a batch whose observations and actions
  differ in length.
\<close>

definition parameter_log_likelihood ::
  "bool \<Rightarrow> nat \<times> real \<Rightarrow> real list \<Rightarrow> real list \<Rightarrow> torch_error + nat tensor" where
  "parameter_log_likelihood grad_enabled pol obs actions =
    (if length obs = length actions
     then Inr \<lparr>shape = [length actions], leaves = tracked grad_enabled {fst pol}\<rparr>
     else Inl ShapeMismatch)"

text \<open>
  An optimizer and a base trainer to evaluate \<open>optimize\<close> on. The optimizer is its bound on
  the constraint. Its step evaluates the loss closure, then the constraint closure, and
  moves the parameter of the policy against the loss when the constraint is within the
  bound. The loss is \<open>\<theta>\<close> times the sum of the observations and raises on a batch whose
  observations and actions differ in length; the constraint is the squared distance between
  the parameters of the two policies.
\<close>

definition bounded_step ::
  "real \<Rightarrow> ((nat \<times> real, real) trpo \<Rightarrow> (torch_error + real) \<times> (nat \<times> real, real) trpo) \<Rightarrow>
   ((nat \<times> real, real) trpo \<Rightarrow> (torch_error + real) \<times> (nat \<times> real, real) trpo) \<Rightarrow>
   (nat \<times> real, real) trpo \<Rightarrow> (torch_error + real) \<times> (nat \<times> real, real) trpo" where
  "bounded_step bound f_loss f_constraint s =
    (case f_loss s of
       (Inl e, s1) \<Rightarrow> (Inl e, s1)
     | (Inr l, s1) \<Rightarrow>
        (case f_constraint s1 of
           (Inl e, s2) \<Rightarrow> (Inl e, s2)
         | (Inr c, s2) \<Rightarrow>
            (Inr l, if c \<le> bound
                    then s2\<lparr>self_policy := (fst (self_policy s2), snd (self_policy s2) - l)\<rparr>
                    else s2)))"

definition sum_loss ::
  "(nat \<times> real, real) trpo \<Rightarrow> nat \<Rightarrow> unit \<Rightarrow> int list \<Rightarrow> real list \<Rightarrow> real list \<Rightarrow> unit \<Rightarrow>
   unit \<Rightarrow> (torch_error + real) \<times> (nat \<times> real, real) trpo" where
  "sum_loss s itr paths valids obs actions rewards baselines =
    (if length obs = length actions
     then (Inr (snd (self_policy s) * sum_list obs), s)
     else (Inl ShapeMismatch, s))"

definition square_constraint ::
  "(nat \<times> real, real) trpo \<Rightarrow> real list \<Rightarrow> (torch_error + real) \<times> (nat \<times> real, real) trpo" where
  "square_constraint s obs = (Inr ((snd (self_policy s) - snd (self_old_policy s))\<^sup>2), s)"

text \<open>
  An optimizer whose step handles the exceptions of the loss closure itself: it evaluates the
  closure and returns 0 when the closure raises.
\<close>

definition swallowing_step ::
  "real \<Rightarrow> ((nat \<times> real, real) trpo \<Rightarrow> (torch_error + real) \<times> (nat \<times> real, real) trpo) \<Rightarrow>
   ((nat \<times> real, real) trpo \<Rightarrow> (torch_error + real) \<times> (nat \<times> real, real) trpo) \<Rightarrow>
   (nat \<times> real, real) trpo \<Rightarrow> (torch_error + real) \<times> (nat \<times> real, real) trpo" where
  "swallowing_step bound f_loss f_constraint s =
    (case f_loss s of
       (Inl e, s1) \<Rightarrow> (Inr 0, s1)
     | (Inr l, s1) \<Rightarrow> (Inr l, s1))"

subsection \<open>A tensor library over floating-point numbers\<close>

text \<open>
  A second tensor library, seen through the values of its tensors, for the statements about
  the numbers that the objective holds. An element of a tensor is a finite number, the
  negative zero (\<open>Finite 0\<close> is the positive one), an infinity or NaN.
\<close>

datatype fl = Finite real | NegZero | PlusInf | MinusInf | NaN

text \<open>
  The floating-point format (single or double precision, say) is a parameter of the library.
  \<open>fmt_round\<close> gives the element that an exact result other than zero is rounded to: the
  nearest number of the format, an infinity when the result overflows, a zero when it
  underflows. \<open>fmt_exp\<close> gives what the exponential of the library returns at a finite
  argument other than zero.
\<close>

record float_format =
  fmt_round :: "real \<Rightarrow> fl"
  fmt_exp :: "real \<Rightarrow> fl"

fun is_zero :: "fl \<Rightarrow> bool" where
  "is_zero (Finite a) = (a = 0)"
| "is_zero NegZero = True"
| "is_zero v = False"

fun is_inf :: "fl \<Rightarrow> bool" where
  "is_inf PlusInf = True"
| "is_inf MinusInf = True"
| "is_inf v = False"

fun is_finite :: "fl \<Rightarrow> bool" where
  "is_finite (Finite a) = True"
| "is_finite NegZero = True"
| "is_finite v = False"

fun negative :: "fl \<Rightarrow> bool" where
  "negative (Finite a) = (a < 0)"
| "negative NegZero = True"
| "negative MinusInf = True"
| "negative v = False"

fun magnitude :: "fl \<Rightarrow> real" where
  "magnitude (Finite a) = a"
| "magnitude v = 0"

text \<open>
  Subtraction, exponential and product of two elements, with the special cases of IEEE 754:
  NaN in an operand gives NaN, the difference of two infinities of one sign is NaN, the
  product of an infinity and a zero is NaN, the difference of two equal finite numbers is
  the positive zero, the exponential of a zero is exactly 1 and that of minus infinity is
  zero, and the sign of a product that is zero or infinite is the product of the signs.
\<close>

fun fl_sub :: "float_format \<Rightarrow> fl \<Rightarrow> fl \<Rightarrow> fl" where
  "fl_sub F NaN y = NaN"
| "fl_sub F x NaN = NaN"
| "fl_sub F PlusInf PlusInf = NaN"
| "fl_sub F MinusInf MinusInf = NaN"
| "fl_sub F PlusInf y = PlusInf"
| "fl_sub F MinusInf y = MinusInf"
| "fl_sub F x PlusInf = MinusInf"
| "fl_sub F x MinusInf = PlusInf"
| "fl_sub F NegZero NegZero = Finite 0"
| "fl_sub F NegZero (Finite b) = (if b = 0 then NegZero else fmt_round F (- b))"
| "fl_sub F (Finite a) NegZero = (if a = 0 then Finite 0 else fmt_round F a)"
| "fl_sub F (Finite a) (Finite b) = (if a = b then Finite 0 else fmt_round F (a - b))"

fun fl_exp :: "float_format \<Rightarrow> fl \<Rightarrow> fl" where
  "fl_exp F NaN = NaN"
| "fl_exp F PlusInf = PlusInf"
| "fl_exp F MinusInf = Finite 0"
| "fl_exp F NegZero = Finite 1"
| "fl_exp F (Finite a) = (if a = 0 then Finite 1 else fmt_exp F a)"

definition fl_mul :: "float_format \<Rightarrow> fl \<Rightarrow> fl \<Rightarrow> fl" where
  "fl_mul F x y =
    (if x = NaN \<or> y = NaN then NaN
     else if (is_inf x \<and> is_zero y) \<or> (is_zero x \<and> is_inf y) then NaN
     else if is_inf x \<or> is_inf y then (if negative x = negative y then PlusInf else MinusInf)
     else if is_zero x \<or> is_zero y then (if negative x = negative y then Finite 0 else NegZero)
     else fmt_round F (magnitude x * magnitude y))"

text \<open>
  A tensor is its shape and its elements in row-major order; it is well formed when it has
  as many elements as the product of its sizes. \<open>unravel\<close> turns a position in the
  row-major order of a shape into one index for each dimension and \<open>ravel\<close> goes back.
  \<open>source_index t s i\<close> is the position, in an operand of shape \<open>t\<close>, of the element that
  broadcasting puts at position \<open>i\<close> of the result of shape \<open>s\<close>: the shape \<open>t\<close> is filled
  with 1 in front up to the length of \<open>s\<close>, and along a dimension of size 1 the operand is
  repeated.
\<close>

record float_tensor =
  sizes :: "nat list"
  elements :: "fl list"

fun unravel :: "nat list \<Rightarrow> nat \<Rightarrow> nat list" where
  "unravel [] i = []"
| "unravel (d # ds) i = (i div prod_list ds) # unravel ds (i mod prod_list ds)"

fun ravel :: "nat list \<Rightarrow> nat list \<Rightarrow> nat" where
  "ravel (d # ds) (j # js) = j * prod_list ds + ravel ds js"
| "ravel ds js = 0"

definition pad_sizes :: "nat list \<Rightarrow> nat list \<Rightarrow> nat list" where
  "pad_sizes s t = replicate (length s - length t) 1 @ t"

definition source_index :: "nat list \<Rightarrow> nat list \<Rightarrow> nat \<Rightarrow> nat" where
  "source_index t s i =
    ravel (pad_sizes s t) (map2 (\<lambda>d j. if d = 1 then 0 else j) (pad_sizes s t) (unravel s i))"

text \<open>
  A binary operation raises when the shapes of its operands do not broadcast, and otherwise
  applies the operation on elements at every position of the broadcast shape. The unary
  operation keeps the shape. The gradient mode does not change the values.
\<close>

definition float_binary ::
  "(fl \<Rightarrow> fl \<Rightarrow> fl) \<Rightarrow> float_tensor \<Rightarrow> float_tensor \<Rightarrow> torch_error + float_tensor" where
  "float_binary f a b =
    (case broadcast_shapes (sizes a) (sizes b) of
       None \<Rightarrow> Inl ShapeMismatch
     | Some s \<Rightarrow>
        Inr \<lparr>sizes = s,
             elements = map (\<lambda>i. f (elements a ! source_index (sizes a) s i)
                                    (elements b ! source_index (sizes b) s i))
                          [0..<prod_list s]\<rparr>)"

definition float_unary :: "(fl \<Rightarrow> fl) \<Rightarrow> float_tensor \<Rightarrow> torch_error + float_tensor" where
  "float_unary f a = Inr \<lparr>sizes = sizes a, elements = map f (elements a)\<rparr>"

definition float_torch :: "float_format \<Rightarrow> (torch_error, float_tensor) torch" where
  "float_torch F =
    \<lparr>t_sub = (\<lambda>grad_enabled. float_binary (fl_sub F)),
     t_exp = (\<lambda>grad_enabled. float_unary (fl_exp F)),
     t_mul = (\<lambda>grad_enabled. float_binary (fl_mul F))\<rparr>"

definition well_formed :: "float_tensor \<Rightarrow> bool" where
  "well_formed a = (length (elements a) = prod_list (sizes a))"

text \<open>
  An element is a value of the format when it is a zero, an infinity or NaN, or a finite
  number that rounding leaves as it is.
\<close>

fun representable :: "float_format \<Rightarrow> fl \<Rightarrow> bool" where
  "representable F (Finite a) = (a = 0 \<or> fmt_round F a = Finite a)"
| "representable F v = True"

text \<open>
  To evaluate this library: the format of unlimited precision and range, in which every real
  number is kept as it is and the exponential is exact, and a policy with one parameter \<open>p\<close>
  that gives probability \<open>p\<close> to every action of the batch, so that its log-likelihood is
  \<open>log p\<close> at every action: minus infinity when \<open>p\<close> is 0, and 0 when \<open>p\<close> is 1.
\<close>

definition exact_format :: float_format where
  "exact_format = \<lparr>fmt_round = Finite, fmt_exp = (\<lambda>x. Finite (exp x))\<rparr>"

definition float_log :: "float_format \<Rightarrow> real \<Rightarrow> fl" where
  "float_log F p =
    (if p < 0 then NaN else if p = 0 then MinusInf else if p = 1 then Finite 0
     else fmt_round F (ln p))"

definition constant_log_likelihood ::
  "float_format \<Rightarrow> bool \<Rightarrow> nat \<times> real \<Rightarrow> real list \<Rightarrow> real list \<Rightarrow> torch_error + float_tensor" where
  "constant_log_likelihood F grad_enabled pol obs actions =
    (if length obs = length actions
     then Inr \<lparr>sizes = [length actions],
               elements = replicate (length actions) (float_log F (snd pol))\<rparr>
     else Inl ShapeMismatch)"

section \<open>Properties\<close>

subsection \<open>The surrogate objective\<close>

lemma tracked_absorb: "tracked g (tracked g L \<union> M) = tracked g (L \<union> M)"
  by (simp add: tracked_def)


subsection \<open>Identical log-likelihoods\<close>

lemma broadcast_reversed_same: "broadcast_reversed xs xs = Some xs"
  by (induction xs) simp_all

lemma broadcast_shapes_same: "broadcast_shapes s s = Some s"
  by (simp add: broadcast_shapes_def broadcast_reversed_same)

lemma ravel_unravel: "i < prod_list s \<Longrightarrow>
    ravel s (map2 (\<lambda>d j. if d = 1 then 0 else j) s (unravel s i)) = i"
proof (induction s arbitrary: i)
  case Nil
  then show ?case by simp
next
  case (Cons d ds)
  have pos: "0 < prod_list ds"
    using Cons.prems by (cases "prod_list ds = 0") simp_all
  then have rest: "ravel ds (map2 (\<lambda>d j. if d = 1 then 0 else j) ds (unravel ds (i mod prod_list ds)))
      = i mod prod_list ds"
    using Cons.IH [of "i mod prod_list ds"] by simp
  have one: "d = 1 \<Longrightarrow> i div prod_list ds = 0 \<and> i mod prod_list ds = i"
    using Cons.prems by simp
  show ?case
    using rest one by (cases "d = 1") simp_all
qed

lemma source_index_same: "i < prod_list s \<Longrightarrow> source_index s s i = i"
  using ravel_unravel [of i s] by (simp add: source_index_def pad_sizes_def)

lemma map_nth_map2:
  "length xs = n \<Longrightarrow> length ys = n \<Longrightarrow> map (\<lambda>i. f (xs ! i) (ys ! i)) [0..<n] = map2 f xs ys"
  by (rule nth_equalityI) simp_all

lemma float_binary_same:
  assumes "sizes b = sizes a" "well_formed a" "well_formed b"
  shows "float_binary f a b = Inr \<lparr>sizes = sizes a, elements = map2 f (elements a) (elements b)\<rparr>"
proof -
  have "map (\<lambda>i. f (elements a ! source_index (sizes a) (sizes a) i)
                   (elements b ! source_index (sizes a) (sizes a) i)) [0..<prod_list (sizes a)] =
        map (\<lambda>i. f (elements a ! i) (elements b ! i)) [0..<prod_list (sizes a)]"
    by (rule map_cong) (simp_all add: source_index_same)
  also have "\<dots> = map2 f (elements a) (elements b)"
    using assms by (intro map_nth_map2) (simp_all add: well_formed_def)
  finally show ?thesis
    using assms(1) by (simp add: float_binary_def broadcast_shapes_same)
qed

lemma fl_sub_same: "is_finite v \<Longrightarrow> fl_sub F v v = Finite 0"
  by (cases v) simp_all

lemma fl_mul_one: "representable F v \<Longrightarrow> fl_mul F (Finite 1) v = v"
  by (cases v) (auto simp: fl_mul_def)

lemma map2_fl_sub_same:
  "\<forall>v\<in>set xs. is_finite v \<Longrightarrow> map2 (fl_sub F) xs xs = replicate (length xs) (Finite 0)"
  by (induction xs) (simp_all add: fl_sub_same)

lemma broadcast_reversed_onto:
  "broadcast_reversed xs ys = Some ys \<Longrightarrow>
    list_all2 (\<lambda>d e. d = e \<or> d = 1) (xs @ replicate (length ys - length xs) 1) ys"
proof (induction xs ys rule: broadcast_reversed.induct)
  case (1 ys)
  then show ?case by (simp add: list_all2_conv_all_nth)
next
  case (2 x xs)
  then show ?case by simp
next
  case (3 x xs y ys)
  then show ?case by (auto split: if_splits)
qed

lemma broadcast_shapes_onto:
  assumes "broadcast_shapes t s = Some s"
  shows "list_all2 (\<lambda>d e. d = e \<or> d = 1) (pad_sizes s t) s"
proof -
  have "broadcast_reversed (rev t) (rev s) = Some (rev s)"
    using assms by (auto simp: broadcast_shapes_def)
  then have "list_all2 (\<lambda>d e. d = e \<or> d = 1)
      (rev t @ replicate (length (rev s) - length (rev t)) 1) (rev s)"
    by (rule broadcast_reversed_onto)
  then have "list_all2 (\<lambda>d e. d = e \<or> d = 1)
      (rev (rev t @ replicate (length s - length t) 1)) (rev (rev s))"
    unfolding list_all2_rev by simp
  then show ?thesis
    by (simp add: pad_sizes_def)
qed

lemma ravel_bound:
  "list_all2 (\<lambda>d e. d = e \<or> d = 1) p s \<Longrightarrow> i < prod_list s \<Longrightarrow>
    ravel p (map2 (\<lambda>d j. if d = 1 then 0 else j) p (unravel s i)) < prod_list p"
proof (induction p s arbitrary: i rule: list_all2_induct)
  case Nil
  then show ?case by simp
next
  case (Cons d p e s)
  let ?P = "prod_list s" and ?Q = "prod_list p"
  let ?j = "if d = 1 then 0 else i div ?P"
  let ?r = "ravel p (map2 (\<lambda>d j. if d = 1 then 0 else j) p (unravel s (i mod ?P)))"
  have pos: "0 < ?P"
    using Cons.prems by (cases "?P = 0") simp_all
  then have r: "?r < ?Q"
    using Cons.IH [of "i mod ?P"] by simp
  have "i div ?P < e"
    using Cons.prems pos by (simp add: less_mult_imp_div_less mult.commute)
  then have j: "?j < d"
    using Cons.hyps(1) by auto
  have "?j * ?Q + ?r < (?j + 1) * ?Q"
    using r by simp
  also have "\<dots> \<le> d * ?Q"
    using j by (intro mult_le_mono1) simp
  finally show ?case
    by simp
qed

lemma source_index_bound:
  assumes "broadcast_shapes t s = Some s" "i < prod_list s"
  shows "source_index t s i < prod_list t"
proof -
  have "ravel (pad_sizes s t)
      (map2 (\<lambda>d j. if d = 1 then 0 else j) (pad_sizes s t) (unravel s i)) <
      prod_list (pad_sizes s t)"
    using broadcast_shapes_onto [OF assms(1)] assms(2) by (rule ravel_bound)
  then show ?thesis
    by (simp add: source_index_def pad_sizes_def)
qed

text \<open>
  C2, as amended: for every floating-point format, on every batch on which the old and the
  new policy assign the same log-likelihood to every action and these log-likelihoods are
  finite, the likelihood ratio is 1 at every action; and when the shape of the
  log-likelihoods broadcasts to the shape of the advantages (as it does when the two shapes
  are equal), the objective returned is the tensor of the advantages exactly. The tensors
  are well formed and the advantages hold values of the format.
\<close>

theorem compute_objective_same_likelihoods:
  assumes old: "log_likelihood False (self_old_policy self) obs actions = Inr ll"
    and new: "log_likelihood grad_enabled (self_policy self) obs actions = Inr ll"
    and wf_ll: "well_formed ll"
    and finite: "\<forall>v\<in>set (elements ll). is_finite v"
    and shape: "broadcast_shapes (sizes ll) (sizes advantages) = Some (sizes advantages)"
    and wf_adv: "well_formed advantages"
    and repr: "\<forall>v\<in>set (elements advantages). representable F v"
  shows "likelihood_ratio (float_torch F) log_likelihood grad_enabled self obs actions =
      Inr \<lparr>sizes = sizes ll, elements = replicate (prod_list (sizes ll)) (Finite 1)\<rparr> \<and>
    compute_objective (float_torch F) log_likelihood grad_enabled self advantages valids obs
      actions rewards = Inr advantages"
proof -
  let ?n = "prod_list (sizes ll)"
  let ?zeros = "\<lparr>sizes = sizes ll, elements = replicate ?n (Finite 0)\<rparr>"
  let ?ones = "\<lparr>sizes = sizes ll, elements = replicate ?n (Finite 1)\<rparr>"
  have len: "length (elements ll) = ?n"
    using wf_ll by (simp add: well_formed_def)
  have "float_binary (fl_sub F) ll ll = Inr ?zeros"
    using wf_ll finite len by (simp add: float_binary_same map2_fl_sub_same)
  moreover have "float_unary (fl_exp F) ?zeros = Inr ?ones"
    by (simp add: float_unary_def)
  ultimately have ratio: "likelihood_ratio (float_torch F) log_likelihood grad_enabled self obs
      actions = Inr ?ones"
    using old new by (simp add: likelihood_ratio_def float_torch_def)
  let ?s = "sizes advantages"
  have len_adv: "length (elements advantages) = prod_list ?s"
    using wf_adv by (simp add: well_formed_def)
  have "map (\<lambda>i. fl_mul F (elements ?ones ! source_index (sizes ?ones) ?s i)
                          (elements advantages ! source_index ?s ?s i)) [0..<prod_list ?s] =
        map (\<lambda>i. elements advantages ! i) [0..<prod_list ?s]"
  proof (rule map_cong)
    fix i assume "i \<in> set [0..<prod_list ?s]"
    then have i: "i < prod_list ?s"
      by simp
    then have "source_index (sizes ll) ?s i < ?n"
      using shape by (intro source_index_bound)
    then have one: "elements ?ones ! source_index (sizes ?ones) ?s i = Finite 1"
      by simp
    have "representable F (elements advantages ! i)"
      using repr i len_adv by simp
    then show "fl_mul F (elements ?ones ! source_index (sizes ?ones) ?s i)
                        (elements advantages ! source_index ?s ?s i) = elements advantages ! i"
      using one i by (simp add: source_index_same fl_mul_one)
  qed simp
  also have "\<dots> = elements advantages"
    using map_nth [of "elements advantages"] len_adv by simp
  finally have "float_binary (fl_mul F) ?ones advantages = Inr advantages"
    using shape by (simp add: float_binary_def)
  then show ?thesis
    using ratio by (simp add: compute_objective_def float_torch_def)
qed


theorem compute_objective_same_likelihoods_witness:
  "likelihood_ratio (float_torch exact_format) (constant_log_likelihood exact_format) True
      \<lparr>self_policy = (1, 1), self_old_policy = (0, 1), self_optimizer = ()\<rparr> [1, 2] [0, 1] =
      Inr \<lparr>sizes = [2], elements = [Finite 1, Finite 1]\<rparr> \<and>
    compute_objective (float_torch exact_format) (constant_log_likelihood exact_format) True
      \<lparr>self_policy = (1, 1), self_old_policy = (0, 1), self_optimizer = ()\<rparr>
      \<lparr>sizes = [2], elements = [Finite 3, Finite (- 1)]\<rparr> [2] [1, 2] [0, 1] () =
      Inr \<lparr>sizes = [2], elements = [Finite 3, Finite (- 1)]\<rparr>"
proof -
  let ?self = "\<lparr>self_policy = (1, 1), self_old_policy = (0, 1), self_optimizer = ()\<rparr>
    :: (nat \<times> real, unit) trpo"
  let ?ll = "\<lparr>sizes = [2], elements = [Finite 0, Finite 0]\<rparr>"
  let ?adv = "\<lparr>sizes = [2], elements = [Finite 3, Finite (- 1)]\<rparr>"
  have old: "constant_log_likelihood exact_format False (self_old_policy ?self) [1, 2] [0, 1] =
      Inr ?ll"
    by (simp add: constant_log_likelihood_def float_log_def numeral_2_eq_2)
  have new: "constant_log_likelihood exact_format True (self_policy ?self) [1, 2] [0, 1] =
      Inr ?ll"
    by (simp add: constant_log_likelihood_def float_log_def numeral_2_eq_2)
  have wf_ll: "well_formed ?ll"
    by (simp add: well_formed_def)
  have finite: "\<forall>v\<in>set (elements ?ll). is_finite v"
    by simp
  have shape: "broadcast_shapes (sizes ?ll) (sizes ?adv) = Some (sizes ?adv)"
    by (simp add: broadcast_shapes_def)
  have wf_adv: "well_formed ?adv"
    by (simp add: well_formed_def)
  have repr: "\<forall>v\<in>set (elements ?adv). representable exact_format v"
    by (simp add: exact_format_def)
  show ?thesis
    using compute_objective_same_likelihoods [where log_likelihood = "constant_log_likelihood exact_format"
        and self = ?self and obs = "[1, 2]" and actions = "[0, 1]" and grad_enabled = True
        and ll = ?ll and advantages = ?adv and F = exact_format and valids = "[2]"
        and rewards = "()", OF old new wf_ll finite shape wf_adv repr]
    by (simp add: numeral_2_eq_2)
qed

text \<open>
  Neither condition can be dropped. First, two policies that give probability 0 to the action of the batch
  both assign it the log-likelihood minus infinity; their difference is NaN, so the ratio is
  NaN and not 1, and the objective is NaN where the advantage is 3. Second, with
  log-likelihoods of shape \<open>[2]\<close> and one advantage of shape \<open>[1]\<close>, the ratio is 1 at both
  actions but the product is broadcast to shape \<open>[2]\<close>, which is not the tensor of the
  advantages. Every number in these computations is a number of every binary format, so the
  format of unlimited precision computes what single precision does.
\<close>

theorem compute_objective_same_likelihoods_counterexample:
  "constant_log_likelihood exact_format False (0, 0) [1] [1] =
      Inr \<lparr>sizes = [1], elements = [MinusInf]\<rparr> \<and>
   constant_log_likelihood exact_format True (1, 0) [1] [1] =
      Inr \<lparr>sizes = [1], elements = [MinusInf]\<rparr> \<and>
   likelihood_ratio (float_torch exact_format) (constant_log_likelihood exact_format) True
      \<lparr>self_policy = (1, 0), self_old_policy = (0, 0), self_optimizer = ()\<rparr> [1] [1] =
      Inr \<lparr>sizes = [1], elements = [NaN]\<rparr> \<and>
   compute_objective (float_torch exact_format) (constant_log_likelihood exact_format) True
      \<lparr>self_policy = (1, 0), self_old_policy = (0, 0), self_optimizer = ()\<rparr>
      \<lparr>sizes = [1], elements = [Finite 3]\<rparr> [1] [1] [1] () =
      Inr \<lparr>sizes = [1], elements = [NaN]\<rparr> \<and>
   compute_objective (float_torch exact_format) (constant_log_likelihood exact_format) True
      \<lparr>self_policy = (1, 1), self_old_policy = (0, 1), self_optimizer = ()\<rparr>
      \<lparr>sizes = [1], elements = [Finite 3]\<rparr> [2] [1, 2] [0, 1] () =
      Inr \<lparr>sizes = [2], elements = [Finite 3, Finite 3]\<rparr>"
  by (simp add: compute_objective_def likelihood_ratio_def float_torch_def float_binary_def
      float_unary_def broadcast_shapes_def source_index_def pad_sizes_def
      constant_log_likelihood_def float_log_def fl_mul_def exact_format_def numeral_2_eq_2)

subsection \<open>Arguments that the objective does not read\<close>

text \<open>
  C5: for fixed advantages, observations, actions and rewards, two lists of validity lengths
  that are permutations of one another give the same objective.
\<close>

theorem compute_objective_valids_order:
  assumes "mset valids = mset valids'"
  shows "compute_objective T log_likelihood grad_enabled self advantages valids obs actions
      rewards =
    compute_objective T log_likelihood grad_enabled self advantages valids' obs actions rewards"
  by (simp add: compute_objective_def)

theorem compute_objective_valids_order_witness:
  "mset [2, 3 :: int] = mset [3, 2] \<and>
   compute_objective graph_torch parameter_log_likelihood True
      \<lparr>self_policy = (1, 2), self_old_policy = (0, 1), self_optimizer = ()\<rparr>
      \<lparr>shape = [5], leaves = {}\<rparr> [2, 3] [1, 2, 1, 0, 3] [0, 1, 1, 2, 0] () =
   compute_objective graph_torch parameter_log_likelihood True
      \<lparr>self_policy = (1, 2), self_old_policy = (0, 1), self_optimizer = ()\<rparr>
      \<lparr>shape = [5], leaves = {}\<rparr> [3, 2] [1, 2, 1, 0, 3] [0, 1, 1, 2, 0] ()"
proof -
  have perm: "mset [2, 3 :: int] = mset [3, 2]"
    by simp
  show ?thesis
    using perm compute_objective_valids_order [OF perm, of graph_torch parameter_log_likelihood
      True "\<lparr>self_policy = (1, 2), self_old_policy = (0, 1), self_optimizer = ()\<rparr>"
      "\<lparr>shape = [5], leaves = {}\<rparr>" "[1, 2, 1, 0, 3]" "[0, 1, 1, 2, 0]" "()"]
    by simp
qed

text \<open>
  C8: for fixed advantages, observations and actions, the objective is the same for any two
  values of the rewards and any two values of the validity lengths.
\<close>

theorem compute_objective_ignores_rewards_valids:
  "compute_objective T log_likelihood grad_enabled self advantages valids obs actions rewards =
   compute_objective T log_likelihood grad_enabled self advantages valids' obs actions rewards'"
  by (simp add: compute_objective_def)

subsection \<open>The gradient graph of the objective\<close>

text \<open>
  C6, as amended: nothing is propagated through the old policy's log-likelihood, which is
  computed with the gradient mode cleared, whatever the mode at the call. For every tensor
  library whose operations record the graphs of their operands as the mode says, and every
  policy class that honours a cleared mode, the graph of the objective is the graph of the
  new log-likelihood joined with that of the advantages when the mode is set at the call,
  so the objective is connected to the parameters of the new policy; it is empty when the
  mode is cleared at the call. \<open>graph\<close> gives the set of parameters that the graph of a
  tensor reaches.
\<close>

theorem compute_objective_gradient_graph:
  assumes sub: "\<forall>a b r. t_sub T grad_enabled a b = Inr r \<longrightarrow>
      graph r = tracked grad_enabled (graph a \<union> graph b)"
    and exp: "\<forall>a r. t_exp T grad_enabled a = Inr r \<longrightarrow> graph r = tracked grad_enabled (graph a)"
    and mul: "\<forall>a b r. t_mul T grad_enabled a b = Inr r \<longrightarrow>
      graph r = tracked grad_enabled (graph a \<union> graph b)"
    and honours: "\<forall>pol x a t. log_likelihood False pol x a = Inr t \<longrightarrow> graph t = {}"
    and new: "log_likelihood grad_enabled (self_policy self) obs actions = Inr new_ll"
    and result: "compute_objective T log_likelihood grad_enabled self advantages valids obs
      actions rewards = Inr surrogate"
  shows "graph surrogate = tracked grad_enabled (graph new_ll \<union> graph advantages)"
proof -
  from result new obtain old_ll d ratio where
    old: "log_likelihood False (self_old_policy self) obs actions = Inr old_ll" and
    d: "t_sub T grad_enabled new_ll old_ll = Inr d" and
    ratio: "t_exp T grad_enabled d = Inr ratio" and
    product: "t_mul T grad_enabled ratio advantages = Inr surrogate"
    by (auto simp: compute_objective_def likelihood_ratio_def split: sum.splits)
  have "graph old_ll = {}"
    using honours old by blast
  then have "graph d = tracked grad_enabled (graph new_ll)"
    using sub d by simp
  then have "graph ratio = tracked grad_enabled (graph new_ll)"
    using exp ratio by (simp add: tracked_def)
  then show ?thesis
    using mul product by (simp add: tracked_absorb)
qed

lemma graph_torch_sub:
  "\<forall>a b r. t_sub graph_torch g a b = Inr r \<longrightarrow> leaves r = tracked g (leaves a \<union> leaves b)"
  by (auto simp: graph_torch_def graph_binary_def split: option.splits)

lemma graph_torch_exp:
  "\<forall>a r. t_exp graph_torch g a = Inr r \<longrightarrow> leaves r = tracked g (leaves a)"
  by (auto simp: graph_torch_def graph_unary_def)

lemma graph_torch_mul:
  "\<forall>a b r. t_mul graph_torch g a b = Inr r \<longrightarrow> leaves r = tracked g (leaves a \<union> leaves b)"
  by (auto simp: graph_torch_def graph_binary_def split: option.splits)

lemma parameter_log_likelihood_honours:
  "\<forall>pol x a t. parameter_log_likelihood False pol x a = Inr t \<longrightarrow> leaves t = {}"
  by (auto simp: parameter_log_likelihood_def tracked_def split: if_splits)

lemma compute_objective_graph_torch:
  "compute_objective graph_torch parameter_log_likelihood g
      \<lparr>self_policy = (1, 2), self_old_policy = (0, 1), self_optimizer = ()\<rparr>
      \<lparr>shape = [2], leaves = {}\<rparr> [2] [1, 2] [0, 1] () =
    Inr \<lparr>shape = [2], leaves = tracked g {1}\<rparr>"
  by (simp add: compute_objective_def likelihood_ratio_def graph_torch_def graph_binary_def
      graph_unary_def broadcast_shapes_def parameter_log_likelihood_def tracked_def)

theorem compute_objective_gradient_graph_witness:
  "parameter_log_likelihood True (1, 2) [1, 2] [0, 1] = Inr \<lparr>shape = [2], leaves = {1}\<rparr> \<and>
   compute_objective graph_torch parameter_log_likelihood True
      \<lparr>self_policy = (1, 2), self_old_policy = (0, 1), self_optimizer = ()\<rparr>
      \<lparr>shape = [2], leaves = {}\<rparr> [2] [1, 2] [0, 1] () =
    Inr \<lparr>shape = [2], leaves = {1}\<rparr> \<and>
   leaves \<lparr>shape = [2], leaves = {1 :: nat}\<rparr> =
    tracked True (leaves \<lparr>shape = [2], leaves = {1}\<rparr> \<union> leaves \<lparr>shape = [2], leaves = {}\<rparr>)"
proof -
  have new: "parameter_log_likelihood True
      (self_policy \<lparr>self_policy = (1, 2), self_old_policy = (0, 1), self_optimizer = ()\<rparr>)
      [1, 2] [0, 1] = Inr \<lparr>shape = [2], leaves = {1}\<rparr>"
    by (simp add: parameter_log_likelihood_def tracked_def)
  have result: "compute_objective graph_torch parameter_log_likelihood True
      \<lparr>self_policy = (1, 2), self_old_policy = (0, 1), self_optimizer = ()\<rparr>
      \<lparr>shape = [2], leaves = {}\<rparr> [2] [1, 2] [0, 1] () =
    Inr \<lparr>shape = [2], leaves = {1}\<rparr>"
    using compute_objective_graph_torch [of True] by (simp add: tracked_def)
  show ?thesis
    using new result
      compute_objective_gradient_graph [OF graph_torch_sub graph_torch_exp graph_torch_mul
        parameter_log_likelihood_honours new result]
    by simp
qed

text \<open>
  The condition on the gradient mode cannot be dropped: with the mode cleared at the call,
  the objective is returned with an empty graph, which does not reach parameter 1 of the new
  policy.
\<close>

theorem compute_objective_gradient_graph_counterexample:
  "compute_objective graph_torch parameter_log_likelihood False
      \<lparr>self_policy = (1, 2), self_old_policy = (0, 1), self_optimizer = ()\<rparr>
      \<lparr>shape = [2], leaves = {}\<rparr> [2] [1, 2] [0, 1] () =
    Inr \<lparr>shape = [2], leaves = {}\<rparr> \<and>
   fst (self_policy \<lparr>self_policy = (1, 2), self_old_policy = (0, 1), self_optimizer = ()\<rparr>) \<notin>
     leaves \<lparr>shape = [2], leaves = {} :: nat set\<rparr>"
  using compute_objective_graph_torch [of False] by (simp add: tracked_def)

subsection \<open>Exceptions and the optimization step\<close>

text \<open>
  C7, as amended: neither method handles an exception. \<open>compute_objective\<close> raises \<open>e\<close>
  exactly when one of the calls it makes, in their order, raises \<open>e\<close>: the old policy's
  log-likelihood, the new policy's, the subtraction, the exponential or the product.
  \<open>optimize\<close> raises \<open>e\<close> exactly when its call of the optimizer's step raises \<open>e\<close>. The
  loss and the constraint are evaluated by that step, through the two closures, and what
  becomes of their exceptions is decided there.
\<close>

theorem no_error_handling:
  "(compute_objective T log_likelihood grad_enabled self advantages valids obs actions rewards =
      Inl e \<longleftrightarrow>
     log_likelihood False (self_old_policy self) obs actions = Inl e \<or>
     (\<exists>old_ll. log_likelihood False (self_old_policy self) obs actions = Inr old_ll \<and>
       (log_likelihood grad_enabled (self_policy self) obs actions = Inl e \<or>
        (\<exists>new_ll. log_likelihood grad_enabled (self_policy self) obs actions = Inr new_ll \<and>
          (t_sub T grad_enabled new_ll old_ll = Inl e \<or>
           (\<exists>d. t_sub T grad_enabled new_ll old_ll = Inr d \<and>
             (t_exp T grad_enabled d = Inl e \<or>
              (\<exists>ratio. t_exp T grad_enabled d = Inr ratio \<and>
                t_mul T grad_enabled ratio advantages = Inl e)))))))) \<and>
   (fst (optimize step compute_loss compute_kl_constraint itr paths valids obs actions rewards
          baselines self) = Inl e \<longleftrightarrow>
    fst (step (self_optimizer self)
          (\<lambda>s. compute_loss s itr paths valids obs actions rewards baselines)
          (\<lambda>s. compute_kl_constraint s obs) self) = Inl e)"
  by (auto simp: compute_objective_def likelihood_ratio_def optimize_def
      split: sum.splits prod.splits)

theorem no_error_handling_witness:
  "compute_objective graph_torch parameter_log_likelihood True
      \<lparr>self_policy = (1, 2), self_old_policy = (0, 2), self_optimizer = 1 / 100 :: real\<rparr>
      \<lparr>shape = [2], leaves = {}\<rparr> [2] [1, 2] [0] () = Inl ShapeMismatch \<and>
   fst (optimize bounded_step sum_loss square_constraint 0 () [2] [1, 2] [0] () ()
      \<lparr>self_policy = (1, 2), self_old_policy = (0, 2), self_optimizer = 1 / 100\<rparr>) =
    Inl ShapeMismatch"
  using no_error_handling [of graph_torch parameter_log_likelihood True
      "\<lparr>self_policy = (1, 2), self_old_policy = (0, 2), self_optimizer = 1 / 100\<rparr>"
      "\<lparr>shape = [2], leaves = {}\<rparr>" "[2]" "[1, 2]" "[0]" "()" ShapeMismatch
      bounded_step sum_loss square_constraint 0 "()" "()"]
  by (simp add: parameter_log_likelihood_def bounded_step_def sum_loss_def)

text \<open>
  An exception of the loss or of the constraint is not, whatever the optimizer, an exception
  of \<open>optimize\<close>: with an optimizer whose step handles the exception of the loss closure,
  the loss raises on the batch and \<open>optimize\<close> returns normally.
\<close>

theorem no_error_handling_counterexample:
  "fst (sum_loss \<lparr>self_policy = (1, 2), self_old_policy = (0, 2), self_optimizer = 1 / 100\<rparr>
      0 () [2] [1, 2] [0] () ()) = Inl ShapeMismatch \<and>
   fst (optimize swallowing_step sum_loss square_constraint 0 () [2] [1, 2] [0] () ()
      \<lparr>self_policy = (1, 2), self_old_policy = (0, 2), self_optimizer = 1 / 100\<rparr>) = Inr ()"
  by (simp add: optimize_def swallowing_step_def sum_loss_def)

text \<open>
  C4: \<open>optimize\<close> is one call of the step of the optimizer stored in the object. The call
  receives a closure that evaluates \<open>compute_loss\<close> on the arguments of \<open>optimize\<close> and a
  closure that evaluates \<open>compute_kl_constraint\<close> on the observations. The state of the
  object after \<open>optimize\<close> is the state that this call leaves, so \<open>optimize\<close> updates nothing
  itself, and the value the step returns is dropped.
\<close>

theorem optimize_delegates_to_step:
  "optimize step compute_loss compute_kl_constraint itr paths valids obs actions rewards
      baselines self =
    (let (result, self') =
       step (self_optimizer self)
         (\<lambda>s. compute_loss s itr paths valids obs actions rewards baselines)
         (\<lambda>s. compute_kl_constraint s obs) self
     in (map_sum (\<lambda>e. e) (\<lambda>r. ()) result, self'))"
  by (simp add: optimize_def split: sum.splits prod.splits)

theorem optimize_delegates_to_step_witness:
  "optimize bounded_step sum_loss square_constraint 0 () [2] [1, 2] [0, 1] () ()
      \<lparr>self_policy = (1, 2), self_old_policy = (0, 2), self_optimizer = 1 / 100\<rparr> =
    (Inr (), \<lparr>self_policy = (1, -4), self_old_policy = (0, 2), self_optimizer = 1 / 100\<rparr>)"
  using optimize_delegates_to_step [of bounded_step sum_loss square_constraint 0 "()" "[2]"
      "[1, 2]" "[0, 1]" "()" "()"
      "\<lparr>self_policy = (1, 2), self_old_policy = (0, 2), self_optimizer = 1 / 100\<rparr>"]
  by (simp add: bounded_step_def sum_loss_def square_constraint_def)

subsection \<open>The constructor\<close>

text \<open>
  C3: for every value of \<open>max_kl_step\<close>, the constructor calls the base constructor on
  keyword arguments whose optimizer is the class \<open>ConjugateGradientOptimizer\<close> together with
  the dictionary that maps \<open>max_constraint_value\<close> to that value.
\<close>

theorem TRPO_init_max_constraint_value:
  "TRPO_init VPG_init env pol bl mpl ntpe disc lam cadv padv pec (Some kl) usp seg em =
     VPG_init (TRPO_init (\<lambda>kwargs. kwargs) env pol bl mpl ntpe disc lam cadv padv pec (Some kl)
       usp seg em) \<and>
   optimizer (TRPO_init (\<lambda>kwargs. kwargs) env pol bl mpl ntpe disc lam cadv padv pec (Some kl)
       usp seg em) =
     (ConjugateGradientOptimizer, [''max_constraint_value'' \<mapsto> kl])"
  by (simp add: TRPO_init_def Let_def)

text \<open>
  C9: with every optional argument left out, the base constructor receives
  \<open>max_path_length = 100\<close>, \<open>num_train_per_epoch = 1\<close>, \<open>discount = 0.99\<close>,
  \<open>gae_lambda = 0.98\<close>, \<open>center_adv = True\<close>, \<open>positive_adv = False\<close>,
  \<open>policy_ent_coeff = 0.0\<close>, \<open>use_softplus_entropy = False\<close>,
  \<open>stop_entropy_gradient = False\<close> and \<open>entropy_method = 'no_entropy'\<close>, and the optimizer
  is built with \<open>max_kl_step = 0.01\<close>.
\<close>

theorem TRPO_init_defaults:
  "TRPO_init VPG_init env pol bl None None None None None None None None None None None =
    VPG_init
      \<lparr>env_spec = env, policy = pol, baseline = bl,
       optimizer = (ConjugateGradientOptimizer, [''max_constraint_value'' \<mapsto> 0.01]),
       max_path_length = 100, num_train_per_epoch = 1, discount = 0.99, gae_lambda = 0.98,
       center_adv = True, positive_adv = False, policy_ent_coeff = 0.0,
       use_softplus_entropy = False, stop_entropy_gradient = False,
       entropy_method = ''no_entropy''\<rparr>"
  by (simp add: TRPO_init_def Let_def)

lemma default_arg_case: "default_arg x d = (case x of None \<Rightarrow> d | Some v \<Rightarrow> v)"
  by (cases x) simp_all

text \<open>
  C10: for every set of arguments, the base constructor receives each argument that was
  passed unchanged, under the keyword of the same name, and the default of the signature
  for each argument that was left out. The optimizer is the one keyword argument that the
  constructor builds itself: whatever the arguments, its class is
  \<open>ConjugateGradientOptimizer\<close> and \<open>max_constraint_value\<close> is the only key of its
  dictionary, and the constructor has no parameter by which a caller could pass another.
\<close>

theorem TRPO_init_forwards:
  "TRPO_init VPG_init env pol bl mpl ntpe disc lam cadv padv pec kl usp seg em =
    VPG_init
      \<lparr>env_spec = env, policy = pol, baseline = bl,
       optimizer = (ConjugateGradientOptimizer,
         [''max_constraint_value'' \<mapsto> (case kl of None \<Rightarrow> 0.01 | Some v \<Rightarrow> v)]),
       max_path_length = (case mpl of None \<Rightarrow> 100 | Some v \<Rightarrow> v),
       num_train_per_epoch = (case ntpe of None \<Rightarrow> 1 | Some v \<Rightarrow> v),
       discount = (case disc of None \<Rightarrow> 0.99 | Some v \<Rightarrow> v),
       gae_lambda = (case lam of None \<Rightarrow> 0.98 | Some v \<Rightarrow> v),
       center_adv = (case cadv of None \<Rightarrow> True | Some v \<Rightarrow> v),
       positive_adv = (case padv of None \<Rightarrow> False | Some v \<Rightarrow> v),
       policy_ent_coeff = (case pec of None \<Rightarrow> 0.0 | Some v \<Rightarrow> v),
       use_softplus_entropy = (case usp of None \<Rightarrow> False | Some v \<Rightarrow> v),
       stop_entropy_gradient = (case seg of None \<Rightarrow> False | Some v \<Rightarrow> v),
       entropy_method = (case em of None \<Rightarrow> ''no_entropy'' | Some v \<Rightarrow> v)\<rparr> \<and>
   fst (optimizer (TRPO_init (\<lambda>kwargs. kwargs) env pol bl mpl ntpe disc lam cadv padv pec kl usp
     seg em)) = ConjugateGradientOptimizer \<and>
   dom (snd (optimizer (TRPO_init (\<lambda>kwargs. kwargs) env pol bl mpl ntpe disc lam cadv padv pec
     kl usp seg em))) = {''max_constraint_value''}"
  by (simp add: TRPO_init_def Let_def default_arg_case cong: option.case_cong)

theorem TRPO_init_forwards_witness:
  "TRPO_init (\<lambda>kwargs. kwargs) () () () (Some 7) None (Some 0.9) None (Some False) None None
      (Some 0.05) None (Some True) (Some ''max'') =
    \<lparr>env_spec = (), policy = (), baseline = (),
     optimizer = (ConjugateGradientOptimizer, [''max_constraint_value'' \<mapsto> 0.05]),
     max_path_length = 7, num_train_per_epoch = 1, discount = 0.9, gae_lambda = 0.98,
     center_adv = False, positive_adv = False, policy_ent_coeff = 0.0,
     use_softplus_entropy = False, stop_entropy_gradient = True, entropy_method = ''max''\<rparr>"
  using TRPO_init_forwards [of "\<lambda>kwargs. kwargs" "()" "()" "()" "Some 7" None "Some 0.9" None
      "Some False" None None "Some 0.05" None "Some True" "Some ''max''"]
  by simp

end
